theory Spec2Isabelle
  imports Main "HOL-Library.AList" "HOL-Library.Sublist"
begin

section \<open>The prepared-metadata regenerator \<^verbatim>\<open>sqlx-prepare.py\<close>\<close>

text \<open>
  The script is a straight line of nine library calls: two runs of the external build
  tool, five directory operations, and two assignments to the process environment.
  The model keeps that shape. A \<^emph>\<open>world\<close> holds the directory tree below the
  working directory, the process environment, and a log of the subprocess invocations
  made so far. Each library call is a function from a world to a result and a new
  world; an exception is the \<open>Inl\<close> result. The external build tool is a
  parameter of the model.
\<close>

subsection \<open>Paths and the three directory names\<close>

type_synonym path = "string list"

text \<open>A relative path name is split at each \<^verbatim>\<open>/\<close> into its components.\<close>

fun split_path :: "string \<Rightarrow> path" where
  "split_path [] = [[]]"
| "split_path (c # cs) =
     (if c = CHR ''/'' then [] # split_path cs
      else (case split_path cs of
              [] \<Rightarrow> [[c]]
            | x # xs \<Rightarrow> (c # x) # xs))"

definition TARGET_DIR :: string where
  "TARGET_DIR = ''target''"

definition SQLX_BUILD_DIR :: string where
  "SQLX_BUILD_DIR = ''target/sqlx''"

definition SQLX_PREPARE_DIR :: string where
  "SQLX_PREPARE_DIR = ''.sqlx''"

subsection \<open>The directory tree\<close>

text \<open>
  A node is a regular file with its contents, or a directory with a flag and its
  entries. The flag says whether entries may be created in and removed from the
  directory (write permission on it). Entries are looked up by name with
  \<^const>\<open>map_of\<close>.
\<close>

datatype node = File string | Dir bool "(string \<times> node) list"

datatype errno = ENOENT | ENOTDIR | EEXIST | EACCES | ENOTEMPTY

text \<open>
  Python raises \<^verbatim>\<open>OSError\<close> (as \<^verbatim>\<open>FileNotFoundError\<close>,
  \<^verbatim>\<open>NotADirectoryError\<close>, \<^verbatim>\<open>FileExistsError\<close>,
  \<^verbatim>\<open>PermissionError\<close>, according to the error number) with the file name
  the failing call was given.
\<close>

datatype error = OSError errno path

fun resolve :: "path \<Rightarrow> node \<Rightarrow> errno + node" where
  "resolve [] n = Inr n"
| "resolve (x # p) (File s) = Inl ENOTDIR"
| "resolve (x # p) (Dir w cs) =
     (case map_of cs x of
        None \<Rightarrow> Inl ENOENT
      | Some c \<Rightarrow> resolve p c)"

definition exists :: "path \<Rightarrow> node \<Rightarrow> bool" where
  "exists p root = (case resolve p root of Inl _ \<Rightarrow> False | Inr _ \<Rightarrow> True)"

definition isdir :: "path \<Rightarrow> node \<Rightarrow> bool" where
  "isdir p root = (case resolve p root of Inr (Dir _ _) \<Rightarrow> True | _ \<Rightarrow> False)"

text \<open>
  \<open>put p v root\<close> replaces (\<open>Some\<close>) or removes (\<open>None\<close>) the entry named by
  \<open>p\<close> in its parent directory. It does nothing when the parent is missing.
\<close>

fun put :: "path \<Rightarrow> node option \<Rightarrow> node \<Rightarrow> node" where
  "put [] v n = n"
| "put (x # p) v (File s) = File s"
| "put [x] v (Dir w cs) =
     Dir w (case v of None \<Rightarrow> AList.delete x cs | Some c \<Rightarrow> AList.update x c cs)"
| "put (x # y # p) v (Dir w cs) =
     (case map_of cs x of
        None \<Rightarrow> Dir w cs
      | Some c \<Rightarrow> Dir w (AList.update x (put (y # p) v c) cs))"

subsection \<open>Worlds and calls\<close>

type_synonym env = "string \<rightharpoonup> string"

record world =
  fs :: node
  environ :: env
  calls :: "(string list \<times> env) list"

type_synonym 'a prog = "world \<Rightarrow> (error + 'a) \<times> world"

text \<open>
  \<^verbatim>\<open>os.mkdir(name)\<close>: the name must not exist, its parent must be a
  directory, and that directory must be writable. The new directory is empty and
  writable.
\<close>

definition mkdir :: "path \<Rightarrow> unit prog" where
  "mkdir p w =
     (case resolve p (fs w) of
        Inr _ \<Rightarrow> (Inl (OSError EEXIST p), w)
      | Inl _ \<Rightarrow>
          (case resolve (butlast p) (fs w) of
             Inl e \<Rightarrow> (Inl (OSError e p), w)
           | Inr (File _) \<Rightarrow> (Inl (OSError ENOTDIR p), w)
           | Inr (Dir pw _) \<Rightarrow>
               if pw then (Inr (), w\<lparr>fs := put p (Some (Dir True [])) (fs w)\<rparr>)
               else (Inl (OSError EACCES p), w)))"

text \<open>
  \<^verbatim>\<open>os.makedirs(name, exist_ok)\<close>: when the parent name is not empty and does
  not exist it is made first (an already-exists error of that call is passed over);
  then the name itself is made with \<^const>\<open>mkdir\<close>, and an error of that call is
  raised again unless \<open>exist_ok\<close> is set and the name is a directory.
\<close>

function makedirs :: "path \<Rightarrow> bool \<Rightarrow> unit prog" where
  "makedirs p exist_ok w =
     (case (if butlast p \<noteq> [] \<and> \<not> exists (butlast p) (fs w)
            then (case makedirs (butlast p) exist_ok w of
                    (Inl (OSError e f), w') \<Rightarrow>
                      if e = EEXIST then (Inr (), w') else (Inl (OSError e f), w')
                  | (Inr u, w') \<Rightarrow> (Inr u, w'))
            else (Inr (), w)) of
        (Inl e, w1) \<Rightarrow> (Inl e, w1)
      | (Inr _, w1) \<Rightarrow>
          (case mkdir p w1 of
             (Inl e, w2) \<Rightarrow>
               if \<not> exist_ok \<or> \<not> isdir p (fs w2) then (Inl e, w2) else (Inr (), w2)
           | (Inr u, w2) \<Rightarrow> (Inr u, w2)))"
  by pat_completeness auto
termination
proof (relation "measure (\<lambda>(p, e, w). length p)")
  fix p :: path and exist_ok :: bool and w :: world
  assume "butlast p \<noteq> [] \<and> \<not> exists (butlast p) (fs w)"
  then have "p \<noteq> []" by auto
  then show "((butlast p, exist_ok, w), (p, exist_ok, w)) \<in> measure (\<lambda>(p, e, w). length p)"
    by simp
qed simp

declare makedirs.simps [simp del]

text \<open>
  \<^verbatim>\<open>shutil.rmtree(name, ignore_errors=True)\<close> walks the tree bottom up. A
  regular file is unlinked when its directory is writable. A directory is removed
  when its own directory is writable and nothing is left in it. Every failure is
  reported to the error handler, which drops it, and the walk goes on.
  \<open>rmtree_walk p pw n\<close> is the walk of node \<open>n\<close> named \<open>p\<close> whose
  directory has the write flag \<open>pw\<close>: the errors reported (one for each name
  that could not be removed), and what is left of \<open>n\<close> (\<open>None\<close> when it
  was removed).
\<close>

fun rmtree_walk :: "path \<Rightarrow> bool \<Rightarrow> node \<Rightarrow> error list \<times> node option" where
  "rmtree_walk p pw (File s) =
     (if pw then ([], None) else ([OSError EACCES p], Some (File s)))"
| "rmtree_walk p pw (Dir w cs) =
     (let rs = map (\<lambda>(x, c). (x, rmtree_walk (p @ [x]) w c)) cs;
          errs = concat (map (\<lambda>(x, r). fst r) rs);
          left = concat (map (\<lambda>(x, r). case snd r of None \<Rightarrow> [] | Some c \<Rightarrow> [(x, c)]) rs)
      in if \<not> pw then (errs @ [OSError EACCES p], Some (Dir w left))
         else if left \<noteq> [] then (errs @ [OSError ENOTEMPTY p], Some (Dir w left))
         else (errs, None))"

text \<open>
  At the top, the name must be a directory: a missing name and a regular file are
  errors too, and nothing is removed then.
\<close>

definition rmtree_at :: "path \<Rightarrow> node \<Rightarrow> error list \<times> node" where
  "rmtree_at p root =
     (case resolve p root of
        Inl e \<Rightarrow> ([OSError e p], root)
      | Inr (File s) \<Rightarrow> ([OSError ENOTDIR p], root)
      | Inr (Dir w cs) \<Rightarrow>
          (case resolve (butlast p) root of
             Inr (Dir pw pcs) \<Rightarrow>
               (case rmtree_walk p pw (Dir w cs) of
                  (errs, left) \<Rightarrow> (errs, put p left root))
           | _ \<Rightarrow> ([], root)))"

text \<open>The errors that the call drops, and the call itself, which never raises.\<close>

definition rmtree_errors :: "string \<Rightarrow> world \<Rightarrow> error list" where
  "rmtree_errors name w = fst (rmtree_at (split_path name) (fs w))"

definition rmtree_ignore_errors :: "string \<Rightarrow> unit prog" where
  "rmtree_ignore_errors name w =
     (Inr (), w\<lparr>fs := snd (rmtree_at (split_path name) (fs w))\<rparr>)"

text \<open>
  \<^verbatim>\<open>shutil.copytree(src, dst)\<close> lists the source first, then makes the
  destination with \<^verbatim>\<open>os.makedirs(dst)\<close> (\<open>exist_ok\<close> not set), then
  copies the entries and, last, the permission bits of the source directory.
\<close>

definition copytree :: "string \<Rightarrow> string \<Rightarrow> unit prog" where
  "copytree src dst w =
     (case resolve (split_path src) (fs w) of
        Inl e \<Rightarrow> (Inl (OSError e (split_path src)), w)
      | Inr (File s) \<Rightarrow> (Inl (OSError ENOTDIR (split_path src)), w)
      | Inr (Dir sw scs) \<Rightarrow>
          (case makedirs (split_path dst) False w of
             (Inl e, w') \<Rightarrow> (Inl e, w')
           | (Inr _, w') \<Rightarrow>
               (Inr (), w'\<lparr>fs := put (split_path dst) (Some (Dir sw scs)) (fs w')\<rparr>)))"

subsection \<open>The build tool and the process environment\<close>

text \<open>
  The build tool is a black box. Given its argument list, the environment it
  inherits and the directory tree, it either cannot be started, or it exits with a
  return code and leaves a tree behind. A child process cannot change the
  environment of the script.
\<close>

datatype proc_result = Exited int node | NotStarted

type_synonym tool = "string list \<Rightarrow> env \<Rightarrow> node \<Rightarrow> proc_result"

text \<open>
  \<^verbatim>\<open>subprocess.run(args)\<close> logs the invocation, waits for the child and
  returns its return code: \<^verbatim>\<open>check\<close> is not set, so a return code other
  than 0 raises nothing. A program that cannot be started raises
  \<^verbatim>\<open>FileNotFoundError\<close>.
\<close>

definition subprocess_run :: "tool \<Rightarrow> string list \<Rightarrow> int prog" where
  "subprocess_run t args w =
     (case t args (environ w) (fs w) of
        NotStarted \<Rightarrow>
          (Inl (OSError ENOENT (take 1 args)), w\<lparr>calls := calls w @ [(args, environ w)]\<rparr>)
      | Exited rc root \<Rightarrow>
          (Inr rc, w\<lparr>fs := root, calls := calls w @ [(args, environ w)]\<rparr>))"

definition environ_set :: "string \<Rightarrow> string \<Rightarrow> unit prog" where
  "environ_set k v w = (Inr (), w\<lparr>environ := (environ w)(k \<mapsto> v)\<rparr>)"

subsection \<open>The script\<close>

text \<open>
  Every statement of the script is a call whose value is dropped. The statements
  run in order, and the first exception ends the run.
\<close>

definition discard :: "'a prog \<Rightarrow> unit prog" where
  "discard m w = (case m w of (Inl e, w') \<Rightarrow> (Inl e, w') | (Inr _, w') \<Rightarrow> (Inr (), w'))"

fun run :: "unit prog list \<Rightarrow> unit prog" where
  "run [] w = (Inr (), w)"
| "run (s # ss) w = (case s w of (Inl e, w') \<Rightarrow> (Inl e, w') | (Inr _, w') \<Rightarrow> run ss w')"

definition script :: "tool \<Rightarrow> unit prog list" where
  "script t =
     [discard (subprocess_run t [''cargo'', ''clean'']),
      makedirs (split_path TARGET_DIR) True,
      rmtree_ignore_errors SQLX_BUILD_DIR,
      rmtree_ignore_errors SQLX_PREPARE_DIR,
      mkdir (split_path SQLX_BUILD_DIR),
      environ_set ''SQLX_OFFLINE'' ''false'',
      environ_set ''SQLX_OFFLINE_DIR'' SQLX_BUILD_DIR,
      discard (subprocess_run t [''cargo'', ''check'', ''--workspace'']),
      copytree SQLX_BUILD_DIR SQLX_PREPARE_DIR]"

definition main :: "tool \<Rightarrow> unit prog" where
  "main t = run (script t)"

text \<open>An exception that nothing handles ends the interpreter with status 1.\<close>

definition exit_status :: "(error + unit) \<times> world \<Rightarrow> int" where
  "exit_status r = (case fst r of Inl _ \<Rightarrow> 1 | Inr _ \<Rightarrow> 0)"

text \<open>The world after the first \<open>k\<close> statements, named by the step just done.\<close>

definition upto :: "nat \<Rightarrow> tool \<Rightarrow> unit prog" where
  "upto k t = run (take k (script t))"

definition after_clean :: "tool \<Rightarrow> unit prog" where
  "after_clean = upto 1"

definition after_makedirs :: "tool \<Rightarrow> unit prog" where
  "after_makedirs = upto 2"

definition after_rmtree :: "tool \<Rightarrow> unit prog" where
  "after_rmtree = upto 4"

definition after_mkdir :: "tool \<Rightarrow> unit prog" where
  "after_mkdir = upto 5"

definition after_check :: "tool \<Rightarrow> unit prog" where
  "after_check = upto 8"

text \<open>The subprocess invocations that a run adds to the log.\<close>

definition invocations :: "tool \<Rightarrow> world \<Rightarrow> (string list \<times> env) list" where
  "invocations t w = drop (length (calls w)) (calls (snd (main t w)))"

text \<open>The environment of the script after its two assignments.\<close>

definition check_environ :: "world \<Rightarrow> env" where
  "check_environ w =
     (environ w)(''SQLX_OFFLINE'' \<mapsto> ''false'', ''SQLX_OFFLINE_DIR'' \<mapsto> SQLX_BUILD_DIR)"

subsection \<open>A stand-in for the build tool\<close>

text \<open>
  For running the model on concrete inputs: \<^verbatim>\<open>cargo clean\<close> removes the
  whole \<^verbatim>\<open>target\<close> directory, and \<^verbatim>\<open>cargo check --workspace\<close> writes
  one query file into the directory that \<^verbatim>\<open>SQLX_OFFLINE_DIR\<close> names and exits
  with a return code other than 0.
\<close>

definition cargo :: tool where
  "cargo args e root =
     (if args = [''cargo'', ''clean''] then Exited 0 (put [''target''] None root)
      else if args = [''cargo'', ''check'', ''--workspace''] then
        (case e ''SQLX_OFFLINE_DIR'' of
           None \<Rightarrow> Exited 101 root
         | Some d \<Rightarrow>
             Exited 101 (put (split_path d @ [''query-1.json'']) (Some (File ''{}'')) root))
      else Exited 1 root)"

text \<open>A tool that changes nothing and reports success.\<close>

definition idle :: tool where
  "idle args e root = Exited 0 root"

text \<open>The same tool, with its return codes replaced.\<close>

definition with_return_codes :: "(string list \<Rightarrow> int \<Rightarrow> int) \<Rightarrow> tool \<Rightarrow> tool" where
  "with_return_codes g t args e root =
     (case t args e root of
        NotStarted \<Rightarrow> NotStarted
      | Exited rc root' \<Rightarrow> Exited (g args rc) root')"

text \<open>
  A workspace left by an earlier run: an unrelated file in \<^verbatim>\<open>target\<close>, and a
  stale file in \<^verbatim>\<open>.sqlx\<close>.
\<close>

definition used_workspace :: world where
  "used_workspace =
     \<lparr>fs = Dir True
             [(''target'', Dir True [(''keep.txt'', File ''k'')]),
              (''.sqlx'', Dir True [(''stale.json'', File ''old'')])],
      environ = Map.empty,
      calls = []\<rparr>"

text \<open>A workspace whose \<^verbatim>\<open>.sqlx\<close> directory is write-protected.\<close>

definition locked_workspace :: world where
  "locked_workspace =
     \<lparr>fs = Dir True [(''.sqlx'', Dir False [(''stale.json'', File ''old'')])],
      environ = Map.empty,
      calls = []\<rparr>"

text \<open>
  A workspace whose top directory is write-protected, and one whose
  \<^verbatim>\<open>target\<close> directory is.
\<close>

definition readonly_workspace :: world where
  "readonly_workspace = \<lparr>fs = Dir False [], environ = Map.empty, calls = []\<rparr>"

definition readonly_target :: world where
  "readonly_target = \<lparr>fs = Dir True [(''target'', Dir False [])], environ = Map.empty, calls = []\<rparr>"

text \<open>
  The start of a second run: the environment of the first start, and the tree
  that the first run on the used workspace left.
\<close>

definition second_start :: world where
  "second_start = used_workspace\<lparr>fs := fs (snd (main cargo used_workspace))\<rparr>"

section \<open>Properties\<close>

subsection \<open>Paths, sequencing and the tree\<close>

lemma split_path_TARGET_DIR [simp]: "split_path TARGET_DIR = [''target'']"
  by (simp add: TARGET_DIR_def)

lemma split_path_SQLX_BUILD_DIR [simp]: "split_path SQLX_BUILD_DIR = [''target'', ''sqlx'']"
  by (simp add: SQLX_BUILD_DIR_def)

lemma split_path_SQLX_PREPARE_DIR [simp]: "split_path SQLX_PREPARE_DIR = [''.sqlx'']"
  by (simp add: SQLX_PREPARE_DIR_def)

lemma run_single: "run [s] w = s w"
  by (cases "s w") (auto split: sum.splits)

lemma run_append:
  "run (xs @ ys) w =
     (case run xs w of (Inl e, w') \<Rightarrow> (Inl e, w') | (Inr _, w') \<Rightarrow> run ys w')"
  by (induction xs arbitrary: w) (auto split: prod.splits sum.splits)

lemma run_snoc:
  "run (xs @ [s]) w =
     (case run xs w of (Inl e, w') \<Rightarrow> (Inl e, w') | (Inr _, w') \<Rightarrow> s w')"
  by (auto simp: run_append run_single split: prod.splits sum.splits)

lemma resolve_append:
  "resolve (p @ r) n = (case resolve p n of Inl e \<Rightarrow> Inl e | Inr m \<Rightarrow> resolve r m)"
  by (induction p n rule: resolve.induct) (auto split: option.splits)

text \<open>A change at \<open>p\<close> leaves every regular file that is not at or below \<open>p\<close>.\<close>

lemma put_keeps_file:
  "\<not> prefix p q \<Longrightarrow> resolve q n = Inr (File c) \<Longrightarrow> resolve q (put p v n) = Inr (File c)"
proof (induction p v n arbitrary: q rule: put.induct)
  case (1 v n)
  then show ?case by simp
next
  case (2 x p v s)
  then show ?case by simp
next
  case (3 x v w cs)
  then show ?case
    by (cases q) (auto simp: update_conv' delete_conv' split: option.splits)
next
  case (4 x y p v w cs)
  then show ?case
    by (cases q) (auto simp: update_conv' split: option.splits)
qed

lemma makedirs_single:
  "makedirs [x] ok w =
     (case mkdir [x] w of
        (Inl e, w2) \<Rightarrow> if \<not> ok \<or> \<not> isdir [x] (fs w2) then (Inl e, w2) else (Inr (), w2)
      | (Inr u, w2) \<Rightarrow> (Inr u, w2))"
  by (simp add: makedirs.simps)

subsection \<open>The script, statement by statement\<close>

lemma after_clean_eq:
  "after_clean t w = discard (subprocess_run t [''cargo'', ''clean'']) w"
  by (auto simp: after_clean_def upto_def script_def split: prod.splits sum.splits)

lemma after_makedirs_eq:
  "after_makedirs t w =
     (case after_clean t w of
        (Inl e, w') \<Rightarrow> (Inl e, w')
      | (Inr _, w') \<Rightarrow> makedirs (split_path TARGET_DIR) True w')"
proof -
  have "take 2 (script t) = take 1 (script t) @ [makedirs (split_path TARGET_DIR) True]"
    by (simp add: script_def)
  then show ?thesis
    by (auto simp: after_makedirs_def after_clean_def upto_def run_snoc split: prod.splits sum.splits)
qed

lemma after_rmtree_eq:
  "after_rmtree t w =
     (case after_makedirs t w of
        (Inl e, w') \<Rightarrow> (Inl e, w')
      | (Inr _, w') \<Rightarrow>
          rmtree_ignore_errors SQLX_PREPARE_DIR (snd (rmtree_ignore_errors SQLX_BUILD_DIR w')))"
proof -
  have "take 4 (script t) =
      take 2 (script t) @ [rmtree_ignore_errors SQLX_BUILD_DIR, rmtree_ignore_errors SQLX_PREPARE_DIR]"
    by (simp add: script_def)
  then show ?thesis
    by (auto simp: after_rmtree_def after_makedirs_def upto_def run_append rmtree_ignore_errors_def
        split: prod.splits sum.splits)
qed

lemma after_mkdir_eq:
  "after_mkdir t w =
     (case after_rmtree t w of
        (Inl e, w') \<Rightarrow> (Inl e, w')
      | (Inr _, w') \<Rightarrow> mkdir (split_path SQLX_BUILD_DIR) w')"
proof -
  have "take 5 (script t) = take 4 (script t) @ [mkdir (split_path SQLX_BUILD_DIR)]"
    by (simp add: script_def)
  then show ?thesis
    by (auto simp: after_mkdir_def after_rmtree_def upto_def run_snoc split: prod.splits sum.splits)
qed

lemma after_check_eq:
  "after_check t w =
     (case after_mkdir t w of
        (Inl e, w') \<Rightarrow> (Inl e, w')
      | (Inr _, w') \<Rightarrow>
          discard (subprocess_run t [''cargo'', ''check'', ''--workspace''])
            (w'\<lparr>environ := (environ w')(''SQLX_OFFLINE'' \<mapsto> ''false'',
                                         ''SQLX_OFFLINE_DIR'' \<mapsto> SQLX_BUILD_DIR)\<rparr>))"
proof -
  have "take 8 (script t) =
      take 5 (script t) @
        [environ_set ''SQLX_OFFLINE'' ''false'',
         environ_set ''SQLX_OFFLINE_DIR'' SQLX_BUILD_DIR,
         discard (subprocess_run t [''cargo'', ''check'', ''--workspace''])]"
    by (simp add: script_def)
  then show ?thesis
    by (auto simp: after_check_def after_mkdir_def upto_def run_append environ_set_def
        split: prod.splits sum.splits)
qed

lemma main_eq:
  "main t w =
     (case after_check t w of
        (Inl e, w') \<Rightarrow> (Inl e, w')
      | (Inr _, w') \<Rightarrow> copytree SQLX_BUILD_DIR SQLX_PREPARE_DIR w')"
proof -
  have "script t = take 8 (script t) @ [copytree SQLX_BUILD_DIR SQLX_PREPARE_DIR]"
    by (simp add: script_def)
  then have "run (script t) w = run (take 8 (script t) @ [copytree SQLX_BUILD_DIR SQLX_PREPARE_DIR]) w"
    by simp
  then show ?thesis
    by (auto simp: main_def after_check_def upto_def run_snoc split: prod.splits sum.splits)
qed

subsection \<open>The final copy\<close>

lemma copytree_exact:
  assumes "copytree SQLX_BUILD_DIR SQLX_PREPARE_DIR w = (Inr u, w')"
  shows "resolve (split_path SQLX_PREPARE_DIR) (fs w') = resolve (split_path SQLX_BUILD_DIR) (fs w)"
    and "resolve (split_path SQLX_BUILD_DIR) (fs w') = resolve (split_path SQLX_BUILD_DIR) (fs w)"
    and "isdir (split_path SQLX_BUILD_DIR) (fs w)"
    and "environ w' = environ w"
    and "calls w' = calls w"
  using assms
  by (cases "fs w"; auto simp: copytree_def makedirs_single mkdir_def isdir_def update_conv'
      split: sum.splits node.splits option.splits if_splits prod.splits)+

lemma copytree_refuses:
  assumes "\<not> exists (split_path SQLX_BUILD_DIR) (fs w) \<or> exists (split_path SQLX_PREPARE_DIR) (fs w)"
  shows "\<exists>e. copytree SQLX_BUILD_DIR SQLX_PREPARE_DIR w = (Inl e, w)"
  using assms
  by (cases "fs w"; auto simp: copytree_def makedirs_single mkdir_def isdir_def exists_def
      update_conv' split: sum.splits node.splits option.splits if_splits prod.splits)

text \<open>A run that ends well went through the type check and then through the copy.\<close>

lemma main_ok_steps:
  assumes "fst (main t w) = Inr ()"
  shows "fst (after_check t w) = Inr ()"
    and "copytree SQLX_BUILD_DIR SQLX_PREPARE_DIR (snd (after_check t w)) = (Inr (), snd (main t w))"
  using assms
  by (auto simp: main_eq prod_eq_iff split: prod.splits sum.splits)

subsection \<open>Runs of the model on the concrete workspaces\<close>

lemmas call_defs =
  discard_def subprocess_run_def makedirs_single mkdir_def exists_def isdir_def
  rmtree_ignore_errors_def rmtree_at_def environ_set_def copytree_def

lemma after_check_cargo_used:
  "after_check cargo used_workspace =
     (Inr (),
      \<lparr>fs = Dir True
              [(''target'', Dir True [(''sqlx'', Dir True [(''query-1.json'', File ''{}'')])])],
       environ = [''SQLX_OFFLINE'' \<mapsto> ''false'', ''SQLX_OFFLINE_DIR'' \<mapsto> ''target/sqlx''],
       calls = [([''cargo'', ''clean''], Map.empty),
                ([''cargo'', ''check'', ''--workspace''],
                 [''SQLX_OFFLINE'' \<mapsto> ''false'', ''SQLX_OFFLINE_DIR'' \<mapsto> ''target/sqlx''])]\<rparr>)"
  by (simp add: after_check_def upto_def script_def used_workspace_def cargo_def call_defs
      SQLX_BUILD_DIR_def)

lemma main_cargo_used:
  "main cargo used_workspace =
     (Inr (),
      \<lparr>fs = Dir True
              [(''target'', Dir True [(''sqlx'', Dir True [(''query-1.json'', File ''{}'')])]),
               (''.sqlx'', Dir True [(''query-1.json'', File ''{}'')])],
       environ = [''SQLX_OFFLINE'' \<mapsto> ''false'', ''SQLX_OFFLINE_DIR'' \<mapsto> ''target/sqlx''],
       calls = [([''cargo'', ''clean''], Map.empty),
                ([''cargo'', ''check'', ''--workspace''],
                 [''SQLX_OFFLINE'' \<mapsto> ''false'', ''SQLX_OFFLINE_DIR'' \<mapsto> ''target/sqlx''])]\<rparr>)"
  by (simp add: main_eq after_check_cargo_used call_defs)

lemma main_cargo_locked:
  "main cargo locked_workspace =
     (Inl (OSError EEXIST [''.sqlx'']),
      \<lparr>fs = Dir True
              [(''.sqlx'', Dir False [(''stale.json'', File ''old'')]),
               (''target'', Dir True [(''sqlx'', Dir True [(''query-1.json'', File ''{}'')])])],
       environ = [''SQLX_OFFLINE'' \<mapsto> ''false'', ''SQLX_OFFLINE_DIR'' \<mapsto> ''target/sqlx''],
       calls = [([''cargo'', ''clean''], Map.empty),
                ([''cargo'', ''check'', ''--workspace''],
                 [''SQLX_OFFLINE'' \<mapsto> ''false'', ''SQLX_OFFLINE_DIR'' \<mapsto> ''target/sqlx''])]\<rparr>)"
  by (simp add: main_def script_def locked_workspace_def cargo_def call_defs SQLX_BUILD_DIR_def)

lemma after_check_cargo_locked:
  "after_check cargo locked_workspace = (Inr (), snd (main cargo locked_workspace))"
  unfolding main_cargo_locked
  by (simp add: after_check_def upto_def script_def locked_workspace_def cargo_def call_defs SQLX_BUILD_DIR_def)

section \<open>The claims\<close>

subsection \<open>The copy\<close>

text \<open>
  C1. When a run ends without an exception, \<^verbatim>\<open>.sqlx\<close> is a directory and so is
  \<^verbatim>\<open>target/sqlx\<close>; every relative path \<open>r\<close> leads to the same thing (the same
  file with the same contents, the same directory, or nothing) below \<^verbatim>\<open>.sqlx\<close>
  at the end as below \<^verbatim>\<open>target/sqlx\<close> right after the type check; and the
  copy has not changed \<^verbatim>\<open>target/sqlx\<close>.
\<close>

theorem prepared_is_exact_copy:
  assumes "fst (main t w) = Inr ()"
  shows "isdir (split_path SQLX_PREPARE_DIR) (fs (snd (main t w))) \<and>
         isdir (split_path SQLX_BUILD_DIR) (fs (snd (main t w))) \<and>
         resolve (split_path SQLX_PREPARE_DIR @ r) (fs (snd (main t w))) =
           resolve (split_path SQLX_BUILD_DIR @ r) (fs (snd (after_check t w))) \<and>
         resolve (split_path SQLX_BUILD_DIR @ r) (fs (snd (main t w))) =
           resolve (split_path SQLX_BUILD_DIR @ r) (fs (snd (after_check t w)))"
proof -
  let ?w6 = "snd (after_check t w)" and ?w7 = "snd (main t w)"
  have copy: "copytree SQLX_BUILD_DIR SQLX_PREPARE_DIR ?w6 = (Inr (), ?w7)"
    using assms by (rule main_ok_steps)
  have dst: "resolve (split_path SQLX_PREPARE_DIR) (fs ?w7) = resolve (split_path SQLX_BUILD_DIR) (fs ?w6)"
    and src: "resolve (split_path SQLX_BUILD_DIR) (fs ?w7) = resolve (split_path SQLX_BUILD_DIR) (fs ?w6)"
    and dir: "isdir (split_path SQLX_BUILD_DIR) (fs ?w6)"
    using copytree_exact [OF copy] by blast+
  have "isdir (split_path SQLX_PREPARE_DIR) (fs ?w7)"
    using dir dst unfolding isdir_def by simp
  moreover have "isdir (split_path SQLX_BUILD_DIR) (fs ?w7)"
    using dir src unfolding isdir_def by simp
  moreover have "resolve (split_path SQLX_PREPARE_DIR @ r) (fs ?w7) =
      resolve (split_path SQLX_BUILD_DIR @ r) (fs ?w6)"
    unfolding resolve_append [of _ r] dst ..
  moreover have "resolve (split_path SQLX_BUILD_DIR @ r) (fs ?w7) =
      resolve (split_path SQLX_BUILD_DIR @ r) (fs ?w6)"
    unfolding resolve_append [of _ r] src ..
  ultimately show ?thesis by blast
qed

theorem prepared_is_exact_copy_witness:
  "fst (main cargo used_workspace) = Inr () \<and>
   isdir (split_path SQLX_PREPARE_DIR) (fs (snd (main cargo used_workspace))) \<and>
   resolve (split_path SQLX_PREPARE_DIR @ [''query-1.json'']) (fs (snd (main cargo used_workspace))) =
     Inr (File ''{}'') \<and>
   resolve (split_path SQLX_BUILD_DIR @ [''query-1.json'']) (fs (snd (after_check cargo used_workspace))) =
     Inr (File ''{}'')"
proof -
  have ok: "fst (main cargo used_workspace) = Inr ()"
    by (simp add: main_cargo_used)
  show ?thesis
    using ok prepared_is_exact_copy [OF ok, of "[''query-1.json'']"]
    by (simp add: after_check_cargo_used)
qed

text \<open>
  C7. When, at the time of the copy, \<^verbatim>\<open>target/sqlx\<close> does not exist or
  \<^verbatim>\<open>.sqlx\<close> exists, the copy raises: the run ends with that exception, in the
  world the type check left, and the exit status is 1.
\<close>

theorem copy_fails_loudly:
  assumes "fst (after_check t w) = Inr ()"
    and "\<not> exists (split_path SQLX_BUILD_DIR) (fs (snd (after_check t w))) \<or>
         exists (split_path SQLX_PREPARE_DIR) (fs (snd (after_check t w)))"
  shows "(\<exists>e. main t w = (Inl e, snd (after_check t w))) \<and> exit_status (main t w) = 1"
proof -
  obtain e where "copytree SQLX_BUILD_DIR SQLX_PREPARE_DIR (snd (after_check t w)) =
      (Inl e, snd (after_check t w))"
    using copytree_refuses [OF assms(2)] by blast
  with assms(1) have "main t w = (Inl e, snd (after_check t w))"
    by (auto simp: main_eq split: prod.splits sum.splits)
  then show ?thesis
    by (simp add: exit_status_def)
qed

theorem copy_fails_loudly_witness:
  "fst (after_check cargo locked_workspace) = Inr () \<and>
   exists (split_path SQLX_PREPARE_DIR) (fs (snd (after_check cargo locked_workspace))) \<and>
   fst (main cargo locked_workspace) = Inl (OSError EEXIST (split_path SQLX_PREPARE_DIR)) \<and>
   exit_status (main cargo locked_workspace) = 1"
proof -
  have ok: "fst (after_check cargo locked_workspace) = Inr ()"
    by (simp add: after_check_cargo_locked)
  have dst: "exists (split_path SQLX_PREPARE_DIR) (fs (snd (after_check cargo locked_workspace)))"
    by (simp add: after_check_cargo_locked main_cargo_locked exists_def)
  show ?thesis
    using ok dst copy_fails_loudly [OF ok disjI2 [OF dst]]
    by (simp add: main_cargo_locked exit_status_def)
qed

subsection \<open>The fresh cache directory\<close>

lemma mkdir_result:
  "\<not> exists [x, y] (fs w) \<Longrightarrow>
     (\<forall>f. fst (mkdir [x, y] w) \<noteq> Inl (OSError EEXIST f)) \<and>
     (fst (mkdir [x, y] w) = Inr () \<longrightarrow> resolve [x, y] (fs (snd (mkdir [x, y] w))) = Inr (Dir True []))"
  by (cases "fs w") (auto simp: mkdir_def exists_def update_conv' split: sum.splits node.splits option.splits)

text \<open>
  C6. When the removals of step 3 have left \<^verbatim>\<open>target/sqlx\<close> absent, step 4
  does not raise an already-exists error, whatever file name the error would carry;
  and when step 4 returns, \<^verbatim>\<open>target/sqlx\<close> is an empty directory.
\<close>

theorem fresh_cache_directory:
  assumes "fst (after_rmtree t w) = Inr ()"
    and "\<not> exists (split_path SQLX_BUILD_DIR) (fs (snd (after_rmtree t w)))"
  shows "(\<forall>f. fst (after_mkdir t w) \<noteq> Inl (OSError EEXIST f)) \<and>
         (fst (after_mkdir t w) = Inr () \<longrightarrow>
            resolve (split_path SQLX_BUILD_DIR) (fs (snd (after_mkdir t w))) = Inr (Dir True []))"
proof -
  have "after_mkdir t w = mkdir (split_path SQLX_BUILD_DIR) (snd (after_rmtree t w))"
    using assms(1) by (auto simp: after_mkdir_eq split: prod.splits sum.splits)
  then show ?thesis
    using mkdir_result [of "''target''" "''sqlx''" "snd (after_rmtree t w)"] assms(2) by simp
qed

theorem fresh_cache_directory_witness:
  "fst (after_rmtree cargo used_workspace) = Inr () \<and>
   \<not> exists (split_path SQLX_BUILD_DIR) (fs (snd (after_rmtree cargo used_workspace))) \<and>
   fst (after_mkdir cargo used_workspace) = Inr () \<and>
   resolve (split_path SQLX_BUILD_DIR) (fs (snd (after_mkdir cargo used_workspace))) =
     Inr (Dir True [])"
proof -
  have ok: "fst (after_rmtree cargo used_workspace) = Inr ()"
    by (simp add: after_rmtree_def upto_def script_def used_workspace_def cargo_def call_defs)
  have absent: "\<not> exists (split_path SQLX_BUILD_DIR) (fs (snd (after_rmtree cargo used_workspace)))"
    by (simp add: after_rmtree_def upto_def script_def used_workspace_def cargo_def call_defs)
  have made: "fst (after_mkdir cargo used_workspace) = Inr ()"
    by (simp add: after_mkdir_def upto_def script_def used_workspace_def cargo_def call_defs)
  show ?thesis
    using ok absent made fresh_cache_directory [OF ok absent] by simp
qed

subsection \<open>The environment and the log of invocations\<close>

text \<open>A directory operation touches neither the environment nor the log.\<close>

lemma mkdir_frame:
  "environ (snd (mkdir p w)) = environ w" "calls (snd (mkdir p w)) = calls w"
  by (auto simp: mkdir_def split: sum.splits node.splits)

lemma makedirs_single_frame:
  "environ (snd (makedirs [x] ok w)) = environ w" "calls (snd (makedirs [x] ok w)) = calls w"
  using mkdir_frame [of "[x]" w]
  by (auto simp: makedirs_single split: prod.splits sum.splits)

lemma rmtree_frame:
  "environ (snd (rmtree_ignore_errors n w)) = environ w"
  "calls (snd (rmtree_ignore_errors n w)) = calls w"
  by (simp_all add: rmtree_ignore_errors_def)

lemma copytree_frame:
  "environ (snd (copytree SQLX_BUILD_DIR SQLX_PREPARE_DIR w)) = environ w"
  "calls (snd (copytree SQLX_BUILD_DIR SQLX_PREPARE_DIR w)) = calls w"
  using makedirs_single_frame [of "''.sqlx''" False w]
  by (auto simp: copytree_def split: prod.splits sum.splits node.splits)

lemma subprocess_run_log:
  "environ (snd (discard (subprocess_run t args) w)) = environ w"
  "calls (snd (discard (subprocess_run t args) w)) = calls w @ [(args, environ w)]"
  by (auto simp: discard_def subprocess_run_def split: proc_result.splits)

lemma after_clean_log:
  "environ (snd (after_clean t w)) = environ w"
  "calls (snd (after_clean t w)) = calls w @ [([''cargo'', ''clean''], environ w)]"
  by (simp_all add: after_clean_eq subprocess_run_log)

lemma after_makedirs_log:
  "environ (snd (after_makedirs t w)) = environ w"
  "calls (snd (after_makedirs t w)) = calls w @ [([''cargo'', ''clean''], environ w)]"
  using after_clean_log [of t w] makedirs_single_frame [of "''target''" True "snd (after_clean t w)"]
  by (auto simp: after_makedirs_eq split: prod.splits sum.splits)

lemma after_rmtree_log:
  "environ (snd (after_rmtree t w)) = environ w"
  "calls (snd (after_rmtree t w)) = calls w @ [([''cargo'', ''clean''], environ w)]"
  using after_makedirs_log [of t w]
  by (auto simp: after_rmtree_eq rmtree_frame split: prod.splits sum.splits)

lemma after_mkdir_log:
  "environ (snd (after_mkdir t w)) = environ w"
  "calls (snd (after_mkdir t w)) = calls w @ [([''cargo'', ''clean''], environ w)]"
  using after_rmtree_log [of t w] mkdir_frame [of "[''target'', ''sqlx'']" "snd (after_rmtree t w)"]
  by (auto simp: after_mkdir_eq split: prod.splits sum.splits)

lemma after_check_log:
  "environ (snd (after_check t w)) =
     (if fst (after_mkdir t w) = Inr () then check_environ w else environ w)"
  "calls (snd (after_check t w)) =
     calls w @ ([''cargo'', ''clean''], environ w) #
       (if fst (after_mkdir t w) = Inr ()
        then [([''cargo'', ''check'', ''--workspace''], check_environ w)] else [])"
  using after_mkdir_log [of t w]
  by (auto simp: after_check_eq subprocess_run_log check_environ_def split: prod.splits sum.splits)

lemma main_log:
  "environ (snd (main t w)) = environ (snd (after_check t w))"
  "calls (snd (main t w)) = calls (snd (after_check t w))"
  using copytree_frame [of "snd (after_check t w)"]
  by (auto simp: main_eq split: prod.splits sum.splits)

lemma invocations_eq:
  "invocations t w =
     ([''cargo'', ''clean''], environ w) #
       (if fst (after_mkdir t w) = Inr ()
        then [([''cargo'', ''check'', ''--workspace''], check_environ w)] else [])"
  by (simp add: invocations_def main_log after_check_log)

lemma used_workspace_sel:
  "environ used_workspace = Map.empty" "calls used_workspace = []"
  by (simp_all add: used_workspace_def)

lemma invocations_cargo_used:
  "invocations cargo used_workspace =
     [([''cargo'', ''clean''], Map.empty),
      ([''cargo'', ''check'', ''--workspace''],
       [''SQLX_OFFLINE'' \<mapsto> ''false'', ''SQLX_OFFLINE_DIR'' \<mapsto> ''target/sqlx''])]"
  by (simp add: invocations_def main_cargo_used used_workspace_sel)

lemma after_mkdir_cargo_used: "fst (after_mkdir cargo used_workspace) = Inr ()"
  by (simp add: after_mkdir_def upto_def script_def used_workspace_def cargo_def call_defs)

text \<open>
  C3. When steps 1 to 4 have gone through, the run invokes the type check; and
  whenever the run invokes the type check, the environment handed to it has
  \<^verbatim>\<open>SQLX_OFFLINE\<close> set to \<^verbatim>\<open>false\<close> and \<^verbatim>\<open>SQLX_OFFLINE_DIR\<close> set to
  the name \<^verbatim>\<open>target/sqlx\<close>.
\<close>

theorem check_sees_assignments:
  "(fst (after_mkdir t w) = Inr () \<longrightarrow>
      (\<exists>e. ([''cargo'', ''check'', ''--workspace''], e) \<in> set (invocations t w))) \<and>
   (([''cargo'', ''check'', ''--workspace''], e) \<in> set (invocations t w) \<longrightarrow>
      e ''SQLX_OFFLINE'' = Some ''false'' \<and> e ''SQLX_OFFLINE_DIR'' = Some SQLX_BUILD_DIR)"
  by (auto simp: invocations_eq check_environ_def split: if_splits)

theorem check_sees_assignments_witness:
  "fst (after_mkdir cargo used_workspace) = Inr () \<and>
   ([''cargo'', ''check'', ''--workspace''],
    [''SQLX_OFFLINE'' \<mapsto> ''false'', ''SQLX_OFFLINE_DIR'' \<mapsto> ''target/sqlx''])
     \<in> set (invocations cargo used_workspace) \<and>
   [''SQLX_OFFLINE'' \<mapsto> ''false'', ''SQLX_OFFLINE_DIR'' \<mapsto> ''target/sqlx''] ''SQLX_OFFLINE''
     = Some ''false'' \<and>
   [''SQLX_OFFLINE'' \<mapsto> ''false'', ''SQLX_OFFLINE_DIR'' \<mapsto> ''target/sqlx''] ''SQLX_OFFLINE_DIR''
     = Some SQLX_BUILD_DIR"
proof -
  let ?e = "[''SQLX_OFFLINE'' \<mapsto> ''false'', ''SQLX_OFFLINE_DIR'' \<mapsto> ''target/sqlx'']"
  have ok: "fst (after_mkdir cargo used_workspace) = Inr ()"
    by (rule after_mkdir_cargo_used)
  have called: "([''cargo'', ''check'', ''--workspace''], ?e) \<in> set (invocations cargo used_workspace)"
    by (simp add: invocations_cargo_used)
  show ?thesis
    using ok called check_sees_assignments [of cargo used_workspace ?e]
    by blast
qed

text \<open>
  C10. The clean invocation is the first one and gets the environment that the
  script inherited; no assignment has been made when it returns. The only other
  invocation a run can make is the type check, which gets the two assignments.
\<close>

theorem clean_sees_inherited_environ:
  "environ (snd (after_clean t w)) = environ w \<and>
   (invocations t w = [([''cargo'', ''clean''], environ w)] \<or>
    invocations t w =
      [([''cargo'', ''clean''], environ w),
       ([''cargo'', ''check'', ''--workspace''],
        (environ w)(''SQLX_OFFLINE'' \<mapsto> ''false'', ''SQLX_OFFLINE_DIR'' \<mapsto> SQLX_BUILD_DIR))])"
  by (simp add: invocations_eq after_clean_log check_environ_def)

theorem clean_sees_inherited_environ_witness:
  "environ used_workspace = Map.empty \<and>
   invocations cargo used_workspace =
     [([''cargo'', ''clean''], Map.empty),
      ([''cargo'', ''check'', ''--workspace''],
       [''SQLX_OFFLINE'' \<mapsto> ''false'', ''SQLX_OFFLINE_DIR'' \<mapsto> ''target/sqlx''])]"
  using clean_sees_inherited_environ [of cargo used_workspace]
  by (simp add: invocations_cargo_used used_workspace_sel)

text \<open>
  C4, as stated, fails: in a run on the used workspace the variable
  \<^verbatim>\<open>SQLX_OFFLINE\<close>, unset at the start, is still set to \<^verbatim>\<open>false\<close> after the
  type check has returned and at the end of the run.
\<close>

theorem environ_restored_counterexample:
  "environ used_workspace ''SQLX_OFFLINE'' = None \<and>
   environ (snd (after_check cargo used_workspace)) ''SQLX_OFFLINE'' = Some ''false'' \<and>
   environ (snd (main cargo used_workspace)) ''SQLX_OFFLINE'' = Some ''false'' \<and>
   environ (snd (main cargo used_workspace)) \<noteq> environ used_workspace"
proof -
  have "environ (snd (main cargo used_workspace)) ''SQLX_OFFLINE'' \<noteq>
      environ used_workspace ''SQLX_OFFLINE''"
    by (simp add: main_cargo_used used_workspace_sel)
  then have "environ (snd (main cargo used_workspace)) \<noteq> environ used_workspace"
    by metis
  then show ?thesis
    by (simp add: main_cargo_used after_check_cargo_used used_workspace_sel)
qed

text \<open>
  C4, amended. The assignments change the environment of the script itself and are
  never undone: from the type check on, and so during the copy and at the end
  of the run, the environment is the inherited one with the two variables set. A run
  that ends before step 5 leaves the environment as inherited.
\<close>

theorem environ_stays_set:
  "environ (snd (main t w)) = environ (snd (after_check t w)) \<and>
   environ (snd (after_check t w)) =
     (if fst (after_mkdir t w) = Inr ()
      then (environ w)(''SQLX_OFFLINE'' \<mapsto> ''false'', ''SQLX_OFFLINE_DIR'' \<mapsto> SQLX_BUILD_DIR)
      else environ w)"
  by (simp add: main_log after_check_log check_environ_def)

theorem environ_stays_set_witness:
  "fst (after_mkdir cargo used_workspace) = Inr () \<and>
   environ (snd (main cargo used_workspace)) =
     [''SQLX_OFFLINE'' \<mapsto> ''false'', ''SQLX_OFFLINE_DIR'' \<mapsto> ''target/sqlx'']"
  using environ_stays_set [of cargo used_workspace] after_mkdir_cargo_used
  by (simp add: used_workspace_sel SQLX_BUILD_DIR_def)

subsection \<open>Return codes\<close>

lemma discard_with_return_codes:
  "discard (subprocess_run (with_return_codes g t) args) = discard (subprocess_run t args)"
  by (rule ext) (simp add: discard_def subprocess_run_def with_return_codes_def split: proc_result.splits)

lemma script_with_return_codes: "script (with_return_codes g t) = script t"
  by (simp add: script_def discard_with_return_codes)

lemma cargo_starts: "cargo args e root \<noteq> NotStarted"
  by (simp add: cargo_def split: option.splits)

lemma started_ok:
  "t args (environ w) (fs w) \<noteq> NotStarted \<Longrightarrow> fst (discard (subprocess_run t args) w) = Inr ()"
  by (simp add: discard_def subprocess_run_def split: proc_result.splits)

text \<open>
  C2. Provided both subprocesses can be started: the run is the same, in its result
  and in every step it takes, whatever return codes the build tool exits with; and
  the exit status of the script is 0 exactly when the three directory calls that
  can raise (step 2, step 4 and step 7; step 3 never raises) all go through.
\<close>

theorem return_codes_ignored:
  assumes starts: "\<And>args e root. t args e root \<noteq> NotStarted"
  shows "main (with_return_codes g t) w = main t w \<and>
         (exit_status (main t w) = 0 \<longleftrightarrow>
            fst (makedirs (split_path TARGET_DIR) True (snd (after_clean t w))) = Inr () \<and>
            fst (mkdir (split_path SQLX_BUILD_DIR) (snd (after_rmtree t w))) = Inr () \<and>
            fst (copytree SQLX_BUILD_DIR SQLX_PREPARE_DIR (snd (after_check t w))) = Inr ())"
proof -
  have same: "main (with_return_codes g t) w = main t w"
    by (simp add: main_def script_with_return_codes)
  have clean: "fst (after_clean t w) = Inr ()"
    by (simp add: after_clean_eq started_ok starts)
  have dirs: "fst (after_makedirs t w) =
      fst (makedirs (split_path TARGET_DIR) True (snd (after_clean t w)))"
    using clean by (auto simp: after_makedirs_eq split: prod.splits sum.splits)
  have rm: "fst (after_rmtree t w) = fst (after_makedirs t w)"
    by (auto simp: after_rmtree_eq rmtree_ignore_errors_def split: prod.splits sum.splits)
  have mk: "fst (after_mkdir t w) = Inr () \<longleftrightarrow>
      fst (after_rmtree t w) = Inr () \<and>
      fst (mkdir (split_path SQLX_BUILD_DIR) (snd (after_rmtree t w))) = Inr ()"
    by (auto simp: after_mkdir_eq split: prod.splits sum.splits)
  have chk: "fst (after_check t w) = Inr () \<longleftrightarrow> fst (after_mkdir t w) = Inr ()"
    by (auto simp: after_check_eq started_ok starts split: prod.splits sum.splits)
  have fin: "fst (main t w) = Inr () \<longleftrightarrow>
      fst (after_check t w) = Inr () \<and>
      fst (copytree SQLX_BUILD_DIR SQLX_PREPARE_DIR (snd (after_check t w))) = Inr ()"
    by (auto simp: main_eq split: prod.splits sum.splits)
  have "exit_status (main t w) = 0 \<longleftrightarrow> fst (main t w) = Inr ()"
    by (simp add: exit_status_def split: sum.splits)
  with same dirs rm mk chk fin show ?thesis
    by auto
qed

theorem return_codes_ignored_witness:
  "(\<forall>args e root. cargo args e root \<noteq> NotStarted) \<and>
   (\<forall>e root. \<exists>root'. cargo [''cargo'', ''check'', ''--workspace''] e root = Exited 101 root') \<and>
   main (with_return_codes (\<lambda>args rc. 0) cargo) used_workspace = main cargo used_workspace \<and>
   exit_status (main cargo used_workspace) = 0"
proof -
  have "exit_status (main cargo used_workspace) = 0"
    by (simp add: main_cargo_used exit_status_def)
  moreover have "\<forall>e root. \<exists>root'. cargo [''cargo'', ''check'', ''--workspace''] e root = Exited 101 root'"
    by (simp add: cargo_def split: option.splits)
  ultimately show ?thesis
    using return_codes_ignored [of cargo "\<lambda>args rc. 0" used_workspace] cargo_starts
    by blast
qed

subsection \<open>Errors of the directory operations\<close>

lemma locked_workspace_sel:
  "environ locked_workspace = Map.empty" "calls locked_workspace = []"
  by (simp_all add: locked_workspace_def)

lemma invocations_cargo_locked:
  "invocations cargo locked_workspace =
     [([''cargo'', ''clean''], Map.empty),
      ([''cargo'', ''check'', ''--workspace''],
       [''SQLX_OFFLINE'' \<mapsto> ''false'', ''SQLX_OFFLINE_DIR'' \<mapsto> ''target/sqlx''])]"
  by (simp add: invocations_def main_cargo_locked locked_workspace_sel)

text \<open>
  C5, as stated, fails: on the workspace with a write-protected \<^verbatim>\<open>.sqlx\<close>,
  removing \<^verbatim>\<open>.sqlx\<close> in step 3 meets a permission error, the script goes on
  through steps 4, 5 and 6 all the same (the type check is invoked), and the error
  that ends the run is the already-exists error of step 7.
\<close>

theorem removal_error_dropped_counterexample:
  "rmtree_errors SQLX_PREPARE_DIR
     (snd (rmtree_ignore_errors SQLX_BUILD_DIR (snd (after_makedirs cargo locked_workspace)))) =
     [OSError EACCES [''.sqlx'', ''stale.json''], OSError ENOTEMPTY [''.sqlx'']] \<and>
   fst (after_check cargo locked_workspace) = Inr () \<and>
   invocations cargo locked_workspace =
     [([''cargo'', ''clean''], Map.empty),
      ([''cargo'', ''check'', ''--workspace''],
       [''SQLX_OFFLINE'' \<mapsto> ''false'', ''SQLX_OFFLINE_DIR'' \<mapsto> ''target/sqlx''])] \<and>
   fst (main cargo locked_workspace) = Inl (OSError EEXIST [''.sqlx''])"
proof -
  have "rmtree_errors SQLX_PREPARE_DIR
     (snd (rmtree_ignore_errors SQLX_BUILD_DIR (snd (after_makedirs cargo locked_workspace)))) =
     [OSError EACCES [''.sqlx'', ''stale.json''], OSError ENOTEMPTY [''.sqlx'']]"
    by (simp add: rmtree_errors_def after_makedirs_def upto_def script_def locked_workspace_def
        cargo_def call_defs)
  then show ?thesis
    by (simp add: after_check_cargo_locked invocations_cargo_locked main_cargo_locked)
qed

text \<open>
  C5, amended. An error of step 2 (\<^verbatim>\<open>os.makedirs\<close>) or of step 4
  (\<^verbatim>\<open>os.mkdir\<close>) ends the run at once with that error, in the world that the
  failing call left. The removals of step 3 never raise: their errors are dropped
  and step 4 runs whenever step 2 went through.
\<close>

theorem directory_errors_end_the_run:
  "(fst (after_clean t w) = Inr () \<and>
    makedirs (split_path TARGET_DIR) True (snd (after_clean t w)) = (Inl e, w') \<longrightarrow>
      main t w = (Inl e, w')) \<and>
   (fst (after_rmtree t w) = Inr () \<and>
    mkdir (split_path SQLX_BUILD_DIR) (snd (after_rmtree t w)) = (Inl e, w') \<longrightarrow>
      main t w = (Inl e, w')) \<and>
   fst (rmtree_ignore_errors name w) = Inr () \<and>
   fst (after_rmtree t w) = fst (after_makedirs t w)"
proof -
  have a: "main t w = (Inl e, w')"
    if "fst (after_clean t w) = Inr ()"
      and "makedirs (split_path TARGET_DIR) True (snd (after_clean t w)) = (Inl e, w')"
  proof -
    from that have "after_makedirs t w = (Inl e, w')"
      by (auto simp: after_makedirs_eq split: prod.splits sum.splits)
    then show ?thesis
      by (simp add: main_eq after_check_eq after_mkdir_eq after_rmtree_eq)
  qed
  have b: "main t w = (Inl e, w')"
    if "fst (after_rmtree t w) = Inr ()"
      and "mkdir (split_path SQLX_BUILD_DIR) (snd (after_rmtree t w)) = (Inl e, w')"
  proof -
    from that have "after_mkdir t w = (Inl e, w')"
      by (auto simp: after_mkdir_eq split: prod.splits sum.splits)
    then show ?thesis
      by (simp add: main_eq after_check_eq)
  qed
  have c: "fst (rmtree_ignore_errors name w) = Inr ()"
    by (simp add: rmtree_ignore_errors_def)
  have d: "fst (after_rmtree t w) = fst (after_makedirs t w)"
    by (auto simp: after_rmtree_eq rmtree_ignore_errors_def split: prod.splits sum.splits)
  from a b c d show ?thesis by blast
qed

lemma main_idle_readonly_workspace:
  "after_clean idle readonly_workspace =
     (Inr (), readonly_workspace\<lparr>calls := [([''cargo'', ''clean''], Map.empty)]\<rparr>)"
  "main idle readonly_workspace =
     (Inl (OSError EACCES [''target'']),
      readonly_workspace\<lparr>calls := [([''cargo'', ''clean''], Map.empty)]\<rparr>)"
  by (simp_all add: after_clean_def main_def upto_def script_def readonly_workspace_def idle_def call_defs)

lemma main_idle_readonly_target:
  "after_rmtree idle readonly_target =
     (Inr (), readonly_target\<lparr>calls := [([''cargo'', ''clean''], Map.empty)]\<rparr>)"
  "main idle readonly_target =
     (Inl (OSError EACCES [''target'', ''sqlx'']),
      readonly_target\<lparr>calls := [([''cargo'', ''clean''], Map.empty)]\<rparr>)"
  by (simp_all add: after_rmtree_def main_def upto_def script_def readonly_target_def idle_def call_defs)

theorem directory_errors_end_the_run_witness:
  "fst (after_clean idle readonly_workspace) = Inr () \<and>
   makedirs (split_path TARGET_DIR) True (snd (after_clean idle readonly_workspace)) =
     (Inl (OSError EACCES [''target'']), snd (after_clean idle readonly_workspace)) \<and>
   main idle readonly_workspace =
     (Inl (OSError EACCES [''target'']), snd (after_clean idle readonly_workspace)) \<and>
   fst (after_rmtree idle readonly_target) = Inr () \<and>
   mkdir (split_path SQLX_BUILD_DIR) (snd (after_rmtree idle readonly_target)) =
     (Inl (OSError EACCES [''target'', ''sqlx'']), snd (after_rmtree idle readonly_target)) \<and>
   main idle readonly_target =
     (Inl (OSError EACCES [''target'', ''sqlx'']), snd (after_rmtree idle readonly_target))"
proof -
  let ?w1 = "snd (after_clean idle readonly_workspace)"
  let ?w4 = "snd (after_rmtree idle readonly_target)"
  have h1: "fst (after_clean idle readonly_workspace) = Inr ()"
    by (simp add: main_idle_readonly_workspace)
  have h2: "makedirs (split_path TARGET_DIR) True ?w1 = (Inl (OSError EACCES [''target'']), ?w1)"
    unfolding main_idle_readonly_workspace snd_conv
    by (simp add: readonly_workspace_def call_defs)
  have h3: "fst (after_rmtree idle readonly_target) = Inr ()"
    by (simp add: main_idle_readonly_target)
  have h4: "mkdir (split_path SQLX_BUILD_DIR) ?w4 = (Inl (OSError EACCES [''target'', ''sqlx'']), ?w4)"
    unfolding main_idle_readonly_target snd_conv
    by (simp add: readonly_target_def call_defs)
  show ?thesis
    using h1 h2 h3 h4
      directory_errors_end_the_run [of idle readonly_workspace "OSError EACCES [''target'']" ?w1]
      directory_errors_end_the_run [of idle readonly_target "OSError EACCES [''target'', ''sqlx'']" ?w4]
    by blast
qed

subsection \<open>Files that the directory operations leave alone\<close>

lemma resolve_prefix:
  assumes "prefix p q" and "resolve q n = Inr v"
  shows "\<exists>m. resolve p n = Inr m"
proof -
  from assms(1) obtain r where "q = p @ r" by (auto simp: prefix_def)
  with assms(2) show ?thesis
    by (cases "resolve p n") (simp_all add: resolve_append)
qed

lemma rmtree_at_keeps_file:
  "\<not> prefix p q \<Longrightarrow> resolve q root = Inr (File c) \<Longrightarrow>
     resolve q (snd (rmtree_at p root)) = Inr (File c)"
  by (auto simp: rmtree_at_def put_keeps_file split: sum.splits node.splits prod.splits)

lemma mkdir_keeps_file:
  assumes "resolve q (fs w) = Inr (File c)"
  shows "resolve q (fs (snd (mkdir p w))) = Inr (File c)"
proof (cases "prefix p q")
  case True
  then obtain m where "resolve p (fs w) = Inr m"
    using assms resolve_prefix by blast
  then show ?thesis
    using assms by (simp add: mkdir_def)
next
  case False
  then show ?thesis
    using assms by (auto simp: mkdir_def put_keeps_file split: sum.splits node.splits)
qed

lemma makedirs_single_keeps_file:
  assumes "resolve q (fs w) = Inr (File c)"
  shows "resolve q (fs (snd (makedirs [x] ok w))) = Inr (File c)"
  using mkdir_keeps_file [OF assms, of "[x]"]
  by (auto simp: makedirs_single split: prod.splits sum.splits)

lemma copytree_keeps_file:
  assumes "resolve q (fs w) = Inr (File c)" and "\<not> prefix (split_path SQLX_PREPARE_DIR) q"
  shows "resolve q (fs (snd (copytree SQLX_BUILD_DIR SQLX_PREPARE_DIR w))) = Inr (File c)"
  using makedirs_single_keeps_file [OF assms(1), of "''.sqlx''" False] assms
  by (auto simp: copytree_def put_keeps_file split: prod.splits sum.splits node.splits)

lemma subprocess_run_keeps_file:
  assumes "resolve q (fs w) = Inr (File c)"
    and "\<And>args e root rc root'. t args e root = Exited rc root' \<Longrightarrow>
           resolve q root = Inr (File c) \<Longrightarrow> resolve q root' = Inr (File c)"
  shows "resolve q (fs (snd (discard (subprocess_run t args) w))) = Inr (File c)"
proof (cases "t args (environ w) (fs w)")
  case (Exited rc root')
  then show ?thesis
    using assms by (simp add: discard_def subprocess_run_def)
next
  case NotStarted
  then show ?thesis
    using assms(1) by (simp add: discard_def subprocess_run_def)
qed

text \<open>
  C9, as stated, fails: \<^verbatim>\<open>cargo clean\<close> removes the \<^verbatim>\<open>target\<close> directory,
  so the unrelated file \<^verbatim>\<open>target/keep.txt\<close> of the used workspace is gone after
  a run that ends well.
\<close>

theorem unrelated_target_file_counterexample:
  "resolve [''target'', ''keep.txt''] (fs used_workspace) = Inr (File ''k'') \<and>
   fst (main cargo used_workspace) = Inr () \<and>
   resolve [''target'', ''keep.txt''] (fs (snd (main cargo used_workspace))) = Inl ENOENT"
  by (simp add: main_cargo_used) (simp add: used_workspace_def)

text \<open>
  C9, amended. The script's own directory operations never remove or change a
  regular file at or below \<^verbatim>\<open>target\<close> that is not at or below
  \<^verbatim>\<open>target/sqlx\<close>: when the build tool, each time it exits, leaves such a file
  in place, the file is there with the same contents after the run, however the run
  ends.
\<close>

theorem script_keeps_target_files:
  assumes present: "resolve q (fs w) = Inr (File c)"
    and under: "prefix (split_path TARGET_DIR) q"
    and outside: "\<not> prefix (split_path SQLX_BUILD_DIR) q"
    and tool: "\<And>args e root rc root'. t args e root = Exited rc root' \<Longrightarrow>
           resolve q root = Inr (File c) \<Longrightarrow> resolve q root' = Inr (File c)"
  shows "resolve q (fs (snd (main t w))) = Inr (File c)"
proof -
  let ?K = "\<lambda>w. resolve q (fs w) = Inr (File c)"
  have not_prep: "\<not> prefix (split_path SQLX_PREPARE_DIR) q"
    using under by (auto simp: prefix_def)
  have k1: "?K (snd (after_clean t w))"
    unfolding after_clean_eq using present tool by (rule subprocess_run_keeps_file)
  have k2: "?K (snd (after_makedirs t w))"
    using k1 makedirs_single_keeps_file [OF k1, of "''target''" True]
    by (auto simp: after_makedirs_eq split: prod.splits sum.splits)
  have k4: "?K (snd (after_rmtree t w))"
    using k2 outside not_prep
    by (auto simp: after_rmtree_eq rmtree_ignore_errors_def rmtree_at_keeps_file
        split: prod.splits sum.splits)
  have k5: "?K (snd (after_mkdir t w))"
    using k4 mkdir_keeps_file [OF k4, of "split_path SQLX_BUILD_DIR"]
    by (auto simp: after_mkdir_eq split: prod.splits sum.splits)
  have k8: "?K (snd (after_check t w))"
  proof (cases "after_mkdir t w")
    case (Pair r w5)
    show ?thesis
    proof (cases r)
      case (Inl e)
      with Pair k5 show ?thesis by (simp add: after_check_eq)
    next
      case (Inr u)
      let ?w7 = "w5\<lparr>environ := (environ w5)(''SQLX_OFFLINE'' \<mapsto> ''false'',
                                         ''SQLX_OFFLINE_DIR'' \<mapsto> SQLX_BUILD_DIR)\<rparr>"
      have "?K ?w7" using Pair k5 by simp
      then have "?K (snd (discard (subprocess_run t [''cargo'', ''check'', ''--workspace'']) ?w7))"
        using tool by (rule subprocess_run_keeps_file)
      with Pair Inr show ?thesis by (simp add: after_check_eq)
    qed
  qed
  show ?thesis
    using k8 copytree_keeps_file [OF k8 not_prep]
    by (auto simp: main_eq split: prod.splits sum.splits)
qed

theorem script_keeps_target_files_witness:
  "resolve [''target'', ''keep.txt''] (fs used_workspace) = Inr (File ''k'') \<and>
   prefix (split_path TARGET_DIR) [''target'', ''keep.txt''] \<and>
   \<not> prefix (split_path SQLX_BUILD_DIR) [''target'', ''keep.txt''] \<and>
   resolve [''target'', ''keep.txt''] (fs (snd (main idle used_workspace))) = Inr (File ''k'')"
proof -
  have present: "resolve [''target'', ''keep.txt''] (fs used_workspace) = Inr (File ''k'')"
    by (simp add: used_workspace_def)
  have under: "prefix (split_path TARGET_DIR) [''target'', ''keep.txt'']"
    by simp
  have outside: "\<not> prefix (split_path SQLX_BUILD_DIR) [''target'', ''keep.txt'']"
    by simp
  have kept: "resolve [''target'', ''keep.txt''] (fs (snd (main idle used_workspace))) = Inr (File ''k'')"
    by (rule script_keeps_target_files [OF present under outside]) (simp add: idle_def)
  show ?thesis
    using present under outside kept by blast
qed

subsection \<open>Stale files and a second run\<close>

lemma mkdir_ok_fresh:
  "mkdir [x, y] w = (Inr u, w') \<Longrightarrow> resolve [x, y] (fs w') = Inr (Dir True [])"
  by (cases "fs w")
    (auto simp: mkdir_def update_conv' split: sum.splits node.splits option.splits if_splits)

lemma main_ok_cache_fresh:
  assumes "fst (main t w) = Inr ()"
  shows "resolve (split_path SQLX_BUILD_DIR) (fs (snd (after_mkdir t w))) = Inr (Dir True [])"
proof -
  have "fst (after_check t w) = Inr ()"
    using assms by (rule main_ok_steps)
  then have "fst (after_mkdir t w) = Inr ()"
    by (auto simp: after_check_eq split: prod.splits sum.splits)
  then obtain w4 where "fst (after_rmtree t w) = Inr ()"
    and "mkdir (split_path SQLX_BUILD_DIR) w4 = (Inr (), snd (after_mkdir t w))"
    by (auto simp: after_mkdir_eq prod_eq_iff split: prod.splits sum.splits)
  then show ?thesis
    using mkdir_ok_fresh [of "''target''" "''sqlx''" w4 "()" "snd (after_mkdir t w)"] by simp
qed

lemma main_ok_prepared:
  assumes "fst (main t w) = Inr ()"
  shows "resolve (split_path SQLX_PREPARE_DIR @ r) (fs (snd (main t w))) =
         resolve (split_path SQLX_BUILD_DIR @ r) (fs (snd (after_check t w)))"
proof -
  have "copytree SQLX_BUILD_DIR SQLX_PREPARE_DIR (snd (after_check t w)) = (Inr (), snd (main t w))"
    using assms by (rule main_ok_steps)
  then have "resolve (split_path SQLX_PREPARE_DIR) (fs (snd (main t w))) =
      resolve (split_path SQLX_BUILD_DIR) (fs (snd (after_check t w)))"
    by (rule copytree_exact)
  then show ?thesis
    unfolding resolve_append [of _ r] by simp
qed

text \<open>
  C8. After a run that ends well, every relative path leads below \<^verbatim>\<open>.sqlx\<close>
  to what it led to below \<^verbatim>\<open>target/sqlx\<close> right after the type check: a file
  that was in \<^verbatim>\<open>.sqlx\<close> before the run is there afterwards only if the build
  tool wrote it again. The type check of a run that ends well starts on an empty
  \<^verbatim>\<open>target/sqlx\<close>. For a second run on the tree that the first one left: when
  both end well and the build tool is deterministic, in the sense that its type
  check leaves the same \<^verbatim>\<open>target/sqlx\<close> both times, both runs leave the same
  \<^verbatim>\<open>.sqlx\<close>.
\<close>

theorem stale_files_do_not_survive:
  assumes first: "fst (main t w) = Inr ()"
    and again: "fs w2 = fs (snd (main t w))"
    and second: "fst (main t w2) = Inr ()"
    and same_output:
      "resolve (split_path SQLX_BUILD_DIR) (fs (snd (after_check t w2))) =
       resolve (split_path SQLX_BUILD_DIR) (fs (snd (after_check t w)))"
  shows "resolve (split_path SQLX_PREPARE_DIR @ r) (fs (snd (main t w))) =
           resolve (split_path SQLX_BUILD_DIR @ r) (fs (snd (after_check t w))) \<and>
         resolve (split_path SQLX_BUILD_DIR) (fs (snd (after_mkdir t w))) = Inr (Dir True []) \<and>
         resolve (split_path SQLX_BUILD_DIR) (fs (snd (after_mkdir t w2))) = Inr (Dir True []) \<and>
         resolve (split_path SQLX_PREPARE_DIR @ r) (fs (snd (main t w2))) =
           resolve (split_path SQLX_PREPARE_DIR @ r) (fs (snd (main t w)))"
proof -
  have "resolve (split_path SQLX_PREPARE_DIR @ r) (fs (snd (main t w2))) =
      resolve (split_path SQLX_BUILD_DIR @ r) (fs (snd (after_check t w2)))"
    using second by (rule main_ok_prepared)
  also have "\<dots> = resolve (split_path SQLX_BUILD_DIR @ r) (fs (snd (after_check t w)))"
    unfolding resolve_append [of _ r] same_output ..
  also have "\<dots> = resolve (split_path SQLX_PREPARE_DIR @ r) (fs (snd (main t w)))"
    using first by (rule main_ok_prepared [symmetric])
  finally show ?thesis
    using main_ok_prepared [OF first] main_ok_cache_fresh [OF first] main_ok_cache_fresh [OF second]
    by simp
qed

lemma after_check_cargo_second:
  "fs (snd (after_check cargo second_start)) =
     Dir True [(''target'', Dir True [(''sqlx'', Dir True [(''query-1.json'', File ''{}'')])])]"
  unfolding second_start_def main_cargo_used
  by (simp add: after_check_def upto_def script_def used_workspace_def cargo_def call_defs SQLX_BUILD_DIR_def)


lemma main_cargo_second:
  "fst (main cargo second_start) = Inr ()"
  "fs (snd (main cargo second_start)) = fs (snd (main cargo used_workspace))"
  unfolding second_start_def main_cargo_used
  by (simp_all add: main_def script_def used_workspace_def cargo_def call_defs SQLX_BUILD_DIR_def)

theorem stale_files_do_not_survive_witness:
  "resolve (split_path SQLX_PREPARE_DIR @ [''stale.json'']) (fs used_workspace) = Inr (File ''old'') \<and>
   fst (main cargo used_workspace) = Inr () \<and>
   fs second_start = fs (snd (main cargo used_workspace)) \<and>
   fst (main cargo second_start) = Inr () \<and>
   resolve (split_path SQLX_BUILD_DIR) (fs (snd (after_check cargo second_start))) =
     resolve (split_path SQLX_BUILD_DIR) (fs (snd (after_check cargo used_workspace))) \<and>
   resolve (split_path SQLX_PREPARE_DIR @ [''stale.json'']) (fs (snd (main cargo used_workspace))) =
     Inl ENOENT \<and>
   resolve (split_path SQLX_PREPARE_DIR @ [''stale.json'']) (fs (snd (main cargo second_start))) =
     Inl ENOENT \<and>
   resolve (split_path SQLX_PREPARE_DIR @ []) (fs (snd (main cargo second_start))) =
     resolve (split_path SQLX_PREPARE_DIR @ []) (fs (snd (main cargo used_workspace)))"
proof -
  have stale: "resolve (split_path SQLX_PREPARE_DIR @ [''stale.json'']) (fs used_workspace) =
      Inr (File ''old'')"
    by (simp add: used_workspace_def)
  have first: "fst (main cargo used_workspace) = Inr ()"
    by (simp add: main_cargo_used)
  have again: "fs second_start = fs (snd (main cargo used_workspace))"
    by (simp add: second_start_def)
  have second: "fst (main cargo second_start) = Inr ()"
    by (rule main_cargo_second)
  have same_output:
    "resolve (split_path SQLX_BUILD_DIR) (fs (snd (after_check cargo second_start))) =
     resolve (split_path SQLX_BUILD_DIR) (fs (snd (after_check cargo used_workspace)))"
    by (simp add: after_check_cargo_second after_check_cargo_used)
  have gone: "resolve (split_path SQLX_BUILD_DIR @ [''stale.json''])
      (fs (snd (after_check cargo used_workspace))) = Inl ENOENT"
    by (simp add: after_check_cargo_used)
  show ?thesis
    using stale first again second same_output gone
      stale_files_do_not_survive [OF first again second same_output, of "[''stale.json'']"]
      stale_files_do_not_survive [OF first again second same_output, of "[]"]
    by simp
qed

end
